theory Spec2Isabelle
  imports Complex_Main "HOL-Library.Log_Nat"
begin

section \<open>Python primitives used by \<^verbatim>\<open>streamlit_app.py\<close>\<close>

text \<open>
  Strings are lists of 8-bit characters; the models below are those of the Python
  built-ins on ASCII text. Python floats are modelled by exact reals wherever only
  sums, products and comparisons of layout lengths are involved (column widths,
  margins); the numeric formatter of section "Formatting helpers" models binary64
  rounding explicitly, because its threshold test and its output depend on it.
\<close>

datatype py_error = OSError | UnicodeDecodeError | ImageError | ZeroDivisionError | ValueError


subsection \<open>Strings\<close>

text \<open>\<^verbatim>\<open>str.isspace\<close> on ASCII: tab, LF, VT, FF, CR, the separators 28..31, and space.\<close>

definition py_isspace :: "char \<Rightarrow> bool" where
  "py_isspace c = (of_char c \<in> {9, 10, 11, 12, 13, 28, 29, 30, 31, 32 :: nat})"

definition py_strip :: "string \<Rightarrow> string" where
  "py_strip s = rev (dropWhile py_isspace (rev (dropWhile py_isspace s)))"

definition py_lower_char :: "char \<Rightarrow> char" where
  "py_lower_char c =
     (case map_of (zip ''ABCDEFGHIJKLMNOPQRSTUVWXYZ'' ''abcdefghijklmnopqrstuvwxyz'') c of
        Some l \<Rightarrow> l | None \<Rightarrow> c)"

definition py_lower :: "string \<Rightarrow> string" where
  "py_lower s = map py_lower_char s"

fun py_startswith :: "string \<Rightarrow> string \<Rightarrow> bool" where
  "py_startswith s [] = True"
| "py_startswith [] (p # ps) = False"
| "py_startswith (c # cs) (p # ps) = (c = p \<and> py_startswith cs ps)"

definition py_endswith :: "string \<Rightarrow> string \<Rightarrow> bool" where
  "py_endswith s suffix = py_startswith (rev s) (rev suffix)"

text \<open>\<^verbatim>\<open>sub in s\<close> on strings: \<open>sub\<close> occurs in \<open>s\<close> as a contiguous run.\<close>

fun py_in :: "string \<Rightarrow> string \<Rightarrow> bool" where
  "py_in sub [] = (sub = [])"
| "py_in sub (c # cs) = (py_startswith (c # cs) sub \<or> py_in sub cs)"

text \<open>\<^verbatim>\<open>str(n)\<close> of a non-negative integer: its decimal digits.\<close>

definition digit_char :: "nat \<Rightarrow> char" where
  "digit_char d = ''0123456789'' ! d"

fun str_nat :: "nat \<Rightarrow> string" where
  "str_nat n = (if n < 10 then [digit_char n] else str_nat (n div 10) @ [digit_char (n mod 10)])"

declare str_nat.simps [simp del]

text \<open>Zero padding to a width, as \<^verbatim>\<open>%02d\<close> and \<^verbatim>\<open>%04d\<close> do.\<close>

definition zero_pad :: "nat \<Rightarrow> string \<Rightarrow> string" where
  "zero_pad w s = replicate (w - length s) (CHR ''0'') @ s"

text \<open>\<^verbatim>\<open>d.get(key, "")\<close> on a dictionary of strings.\<close>

definition dict_get :: "(string \<rightharpoonup> string) \<Rightarrow> string \<Rightarrow> string" where
  "dict_get d k = (case d k of None \<Rightarrow> [] | Some v \<Rightarrow> v)"

subsection \<open>Module constants\<close>

definition inch :: real where
  "inch = 72"

text \<open>\<^verbatim>\<open>PAGE_W, PAGE_H = letter\<close>: US Letter in points.\<close>

definition PAGE_W :: real where
  "PAGE_W = 612"






text \<open>Absolute positions and font sizes of the footer elements.\<close>

definition VER_FONT_SIZE :: nat where
  "VER_FONT_SIZE = 6"

definition PAGE_FONT_SIZE :: nat where
  "PAGE_FONT_SIZE = 6"

definition FOOTER_RIGHT_X :: real where
  "FOOTER_RIGHT_X = PAGE_W - 0.625 * inch"

definition VER_Y_ABS :: real where
  "VER_Y_ABS = 0.45 * inch"

definition PAGE_Y_ABS :: real where
  "PAGE_Y_ABS = 0.32 * inch"

subsection \<open>Column width fitter\<close>


section \<open>PDF generation: \<^verbatim>\<open>NumberedCanvas\<close>\<close>

text \<open>
  The class extends ReportLab's \<^verbatim>\<open>canvas.Canvas\<close>. Of the base class the model keeps what
  the subclass relies on: the page counter \<^verbatim>\<open>_pageNumber\<close> (1 on a new canvas), the
  operator list \<^verbatim>\<open>_code\<close> of the page being drawn, the current font and fill colour,
  and the pages already handed to the PDF document \<^verbatim>\<open>_doc\<close>.

  \<^verbatim>\<open>dict(self.__dict__)\<close> is a shallow copy of the instance attributes. The attributes
  that are rebound between pages are the fields of \<open>page_state\<close> (\<open>self_version_text\<close>
  and \<open>self_footer_h\<close> are \<^verbatim>\<open>self._version_text\<close> and \<^verbatim>\<open>self._footer_h\<close>). The list
  \<^verbatim>\<open>_saved_page_states\<close> and the document \<^verbatim>\<open>_doc\<close> are objects shared by every copy:
  restoring a copy leaves them as they are, so they are fields of the canvas and not of
  the snapshot.
\<close>

datatype color = black | grey

datatype draw_op =
    SetFont string nat
  | SetFillColor color
  | DrawRightString real real string
  | Content string

record page_state =
  pageNumber :: nat
  code :: "draw_op list"
  fontname :: string
  fontsize :: nat
  fillColor :: color
  self_version_text :: string
  self_footer_h :: real

record canvas =
  cur :: page_state
  saved_page_states :: "page_state list"
  doc_pages :: "draw_op list list"
  doc_saved :: bool

subsection \<open>Base class \<^verbatim>\<open>canvas.Canvas\<close>\<close>

definition Canvas_setFont :: "string \<Rightarrow> nat \<Rightarrow> canvas \<Rightarrow> canvas" where
  "Canvas_setFont name sz c =
     c\<lparr>cur := (cur c)\<lparr>fontname := name, fontsize := sz,
                        code := code (cur c) @ [SetFont name sz]\<rparr>\<rparr>"

definition Canvas_setFillColor :: "color \<Rightarrow> canvas \<Rightarrow> canvas" where
  "Canvas_setFillColor col c =
     c\<lparr>cur := (cur c)\<lparr>fillColor := col, code := code (cur c) @ [SetFillColor col]\<rparr>\<rparr>"

definition Canvas_drawRightString :: "real \<Rightarrow> real \<Rightarrow> string \<Rightarrow> canvas \<Rightarrow> canvas" where
  "Canvas_drawRightString x y txt c =
     c\<lparr>cur := (cur c)\<lparr>code := code (cur c) @ [DrawRightString x y txt]\<rparr>\<rparr>"

definition Canvas_getPageNumber :: "canvas \<Rightarrow> nat" where
  "Canvas_getPageNumber c = pageNumber (cur c)"

text \<open>
  \<^verbatim>\<open>_startPage\<close>: count the page, start an empty operator list, reset the graphics state.
\<close>

definition Canvas_startPage :: "canvas \<Rightarrow> canvas" where
  "Canvas_startPage c =
     c\<lparr>cur := (cur c)\<lparr>pageNumber := pageNumber (cur c) + 1, code := [],
                        fontname := ''Helvetica'', fontsize := 12, fillColor := black\<rparr>\<rparr>"

text \<open>The base \<^verbatim>\<open>showPage\<close>: emit the current page into the document, then start the next.\<close>

definition Canvas_showPage :: "canvas \<Rightarrow> canvas" where
  "Canvas_showPage c = Canvas_startPage (c\<lparr>doc_pages := doc_pages c @ [code (cur c)]\<rparr>)"

text \<open>
  The base \<^verbatim>\<open>save\<close>: \<^verbatim>\<open>if len(self._code): self.showPage()\<close>, then write the document.
  The call \<^verbatim>\<open>self.showPage()\<close> is dispatched to the subclass, so the method is a
  parameter here.
\<close>

definition Canvas_save :: "(canvas \<Rightarrow> canvas) \<Rightarrow> canvas \<Rightarrow> canvas" where
  "Canvas_save showPage c =
     (let c' = (if code (cur c) \<noteq> [] then showPage c else c) in c'\<lparr>doc_saved := True\<rparr>)"

subsection \<open>The subclass\<close>

text \<open>\<^verbatim>\<open>__init__\<close>: a new canvas with no saved states.\<close>

definition NumberedCanvas_init :: "string \<Rightarrow> real \<Rightarrow> canvas" where
  "NumberedCanvas_init version fh =
     \<lparr>cur = \<lparr>pageNumber = 1, code = [], fontname = ''Helvetica'', fontsize = 12,
              fillColor = black, self_version_text = version, self_footer_h = fh\<rparr>,
      saved_page_states = [], doc_pages = [], doc_saved = False\<rparr>"

text \<open>\<^verbatim>\<open>showPage\<close>: only store the state; the base \<^verbatim>\<open>showPage\<close> is not called.\<close>

definition showPage :: "canvas \<Rightarrow> canvas" where
  "showPage c = Canvas_startPage (c\<lparr>saved_page_states := saved_page_states c @ [cur c]\<rparr>)"

definition draw_footer_numbers :: "nat \<Rightarrow> canvas \<Rightarrow> canvas" where
  "draw_footer_numbers total_pages c =
     (let page_num = Canvas_getPageNumber c;
          page_text = ''Page '' @ str_nat page_num @ '' of '' @ str_nat total_pages;
          right_x = FOOTER_RIGHT_X;
          c1 = Canvas_setFont ''Helvetica'' VER_FONT_SIZE c;
          c2 = Canvas_setFillColor grey c1;
          c3 = Canvas_drawRightString right_x VER_Y_ABS (self_version_text (cur c2)) c2;
          c4 = Canvas_setFont ''Helvetica'' PAGE_FONT_SIZE c3
      in Canvas_drawRightString right_x PAGE_Y_ABS page_text c4)"

text \<open>
  \<^verbatim>\<open>save\<close>: the loop restores each saved state (\<^verbatim>\<open>self.__dict__.update(state)\<close>), draws
  the footer texts and emits the page with the base \<^verbatim>\<open>showPage\<close>.
\<close>

definition save_page :: "nat \<Rightarrow> canvas \<Rightarrow> page_state \<Rightarrow> canvas" where
  "save_page total_pages c state = Canvas_showPage (draw_footer_numbers total_pages (c\<lparr>cur := state\<rparr>))"

definition save :: "canvas \<Rightarrow> canvas" where
  "save c =
     (let total_pages = length (saved_page_states c) in
      Canvas_save showPage (foldl (save_page total_pages) c (saved_page_states c)))"

subsection \<open>The first pass, as the document builder drives it\<close>

text \<open>
  \<^verbatim>\<open>doc.build(story, canvasmaker=...)\<close> draws each page of the flowing content on the
  canvas (the decoration of \<^verbatim>\<open>on_page\<close> and the flowables), calls \<^verbatim>\<open>showPage()\<close> at the end
  of each page, and calls \<^verbatim>\<open>save()\<close> once after the last. A document whose content spans
  \<open>N\<close> pages is a list of \<open>N\<close> operator lists.
\<close>

fun apply_op :: "canvas \<Rightarrow> draw_op \<Rightarrow> canvas" where
  "apply_op c (SetFont name sz) = Canvas_setFont name sz c"
| "apply_op c (SetFillColor col) = Canvas_setFillColor col c"
| "apply_op c (DrawRightString x y txt) = Canvas_drawRightString x y txt c"
| "apply_op c (Content s) = c\<lparr>cur := (cur c)\<lparr>code := code (cur c) @ [Content s]\<rparr>\<rparr>"

definition draw_page :: "canvas \<Rightarrow> draw_op list \<Rightarrow> canvas" where
  "draw_page c ops = showPage (foldl apply_op c ops)"

definition collect_pages :: "draw_op list list \<Rightarrow> canvas \<Rightarrow> canvas" where
  "collect_pages pages c = foldl draw_page c pages"

definition build_canvas :: "string \<Rightarrow> real \<Rightarrow> draw_op list list \<Rightarrow> canvas" where
  "build_canvas version fh pages = save (collect_pages pages (NumberedCanvas_init version fh))"

text \<open>The operators the second pass adds to page \<open>k\<close> of \<open>n\<close>.\<close>

definition footer_ops :: "string \<Rightarrow> nat \<Rightarrow> nat \<Rightarrow> draw_op list" where
  "footer_ops version k n =
     [SetFont ''Helvetica'' 6, SetFillColor grey,
      DrawRightString FOOTER_RIGHT_X VER_Y_ABS version,
      SetFont ''Helvetica'' 6,
      DrawRightString FOOTER_RIGHT_X PAGE_Y_ABS (''Page '' @ str_nat k @ '' of '' @ str_nat n)]"

section \<open>Data helpers: \<^verbatim>\<open>parse_uploaded_file\<close>\<close>

text \<open>
  A \<^verbatim>\<open>pandas.Timestamp\<close>, by its calendar fields. \<^verbatim>\<open>strftime("%Y-%m-%d")\<close> pads the year to
  four digits and month and day to two; \<^verbatim>\<open>str\<close> of a timestamp without time zone and
  sub-second part adds the time of day.
\<close>

record timestamp =
  ts_year :: nat
  ts_month :: nat
  ts_day :: nat
  ts_hour :: nat
  ts_minute :: nat
  ts_second :: nat

definition strftime_ymd :: "timestamp \<Rightarrow> string" where
  "strftime_ymd t =
     zero_pad 4 (str_nat (ts_year t)) @ ''-'' @ zero_pad 2 (str_nat (ts_month t)) @ ''-''
       @ zero_pad 2 (str_nat (ts_day t))"

definition str_timestamp :: "timestamp \<Rightarrow> string" where
  "str_timestamp t =
     strftime_ymd t @ '' '' @ zero_pad 2 (str_nat (ts_hour t)) @ '':''
       @ zero_pad 2 (str_nat (ts_minute t)) @ '':'' @ zero_pad 2 (str_nat (ts_second t))"



text \<open>
  A cell of the frame that \<^verbatim>\<open>pd.read_csv(file, header=None)\<close> or \<^verbatim>\<open>pd.read_excel\<close>
  returns: a missing value (\<^verbatim>\<open>pd.isna\<close> holds: NaN, None, NaT), a string, a
  \<^verbatim>\<open>pd.Timestamp\<close>, or another scalar (an integer, a float, a boolean), which the
  function only ever passes to \<^verbatim>\<open>str\<close> and which is therefore given by that text.
\<close>

datatype cell = NA | Str string | Timestamp timestamp | Scalar string

fun isna :: "cell \<Rightarrow> bool" where
  "isna NA = True"
| "isna c = False"

fun str_cell :: "cell \<Rightarrow> string" where
  "str_cell NA = ''nan''"
| "str_cell (Str s) = s"
| "str_cell (Timestamp t) = str_timestamp t"
| "str_cell (Scalar s) = s"

text \<open>\<^verbatim>\<open>isinstance(field, str) and field.strip().lower() == "field"\<close>\<close>

fun is_field_header :: "cell \<Rightarrow> bool" where
  "is_field_header (Str s) = (py_lower (py_strip s) = ''field'')"
| "is_field_header c = False"

text \<open>The body of the loop over \<^verbatim>\<open>df.iterrows()\<close>, one row at a time.\<close>

definition process_row :: "(string \<rightharpoonup> string) \<Rightarrow> cell list \<Rightarrow> (string \<rightharpoonup> string)" where
  "process_row data row =
     (if length row < 1 then data
      else let field = row ! 0 in
        if is_field_header field then data
        else if isna field then data
        else let v = (if length row > 1 then row ! 1 else Str []) in
          if isna v then data
          else let v' = (case v of Timestamp t \<Rightarrow> Str (strftime_ymd t) | _ \<Rightarrow> v) in
            data(py_strip (str_cell field) \<mapsto> py_strip (str_cell v')))"

definition load_frame :: "cell list list \<Rightarrow> (string \<rightharpoonup> string)" where
  "load_frame df = foldl process_row Map.empty df"

text \<open>
  The uploaded file, and the two pandas readers as parameters: each returns a frame
  (its rows) or raises, given here as \<open>Inl\<close> of the exception's text. The result is the
  dictionary together with the messages passed to \<^verbatim>\<open>st.error\<close>.
\<close>

record uploaded_file =
  file_name :: string
  file_bytes :: string

definition parse_uploaded_file ::
  "(uploaded_file \<Rightarrow> string + cell list list) \<Rightarrow> (uploaded_file \<Rightarrow> string + cell list list)
    \<Rightarrow> uploaded_file option \<Rightarrow> (string \<rightharpoonup> string) \<times> string list" where
  "parse_uploaded_file read_csv read_excel file =
     (case file of
        None \<Rightarrow> (Map.empty, [])
      | Some f \<Rightarrow>
          (let name = py_lower (file_name f) in
           if py_endswith name ''.csv'' then
             (case read_csv f of
                Inl exc \<Rightarrow> (Map.empty, [''Failed to parse uploaded file: '' @ exc])
              | Inr df \<Rightarrow> (load_frame df, []))
           else if py_endswith name ''.xls'' \<or> py_endswith name ''.xlsx'' then
             (case read_excel f of
                Inl exc \<Rightarrow> (Map.empty, [''Failed to parse uploaded file: '' @ exc])
              | Inr df \<Rightarrow> (load_frame df, []))
           else (Map.empty, [''Unsupported file type. Please upload CSV or Excel.''])))"

text \<open>Rows the claims speak of: a header row, and a row whose value is missing.\<close>

definition header_row :: "cell list \<Rightarrow> bool" where
  "header_row row = (case row of [] \<Rightarrow> False | field # _ \<Rightarrow> is_field_header field)"

definition missing_value_row :: "cell list \<Rightarrow> bool" where
  "missing_value_row row = (case row of _ # v # _ \<Rightarrow> isna v | _ \<Rightarrow> False)"

section \<open>Formatting helpers\<close>

subsection \<open>\<^verbatim>\<open>_normalize_date_str\<close>\<close>

text \<open>
  \<^verbatim>\<open>pd.to_datetime(s, errors="coerce")\<close> on a string is a parameter: it raises, or returns
  \<^verbatim>\<open>NaT\<close> (for which \<^verbatim>\<open>pd.isna\<close> holds), or returns a \<^verbatim>\<open>Timestamp\<close>. A timestamp has
  \<^verbatim>\<open>to_pydatetime\<close> and converts to a \<^verbatim>\<open>datetime\<close>, so the result is
  \<^verbatim>\<open>dt.strftime("%Y-%m-%d")\<close>; the last line \<^verbatim>\<open>str(dt)[:10]\<close> is not reached. The
  \<^verbatim>\<open>except Exception\<close> branch returns the input.
\<close>

datatype to_datetime_result = Raises | NaT | Parsed timestamp

definition normalize_date_str :: "(string \<Rightarrow> to_datetime_result) \<Rightarrow> string \<Rightarrow> string" where
  "normalize_date_str to_datetime s =
     (if s = [] then s
      else (case to_datetime s of
              Raises \<Rightarrow> s
            | NaT \<Rightarrow> s
            | Parsed dt \<Rightarrow> strftime_ymd dt))"

subsection \<open>Python floats\<close>








subsection \<open>\<^verbatim>\<open>float(str)\<close>\<close>











subsection \<open>The format \<^verbatim>\<open>.1E\<close>\<close>




subsection \<open>\<^verbatim>\<open>_sci_if_needed\<close>\<close>


section \<open>Document generation: \<^verbatim>\<open>generate_coa_pdf_vector\<close>\<close>

subsection \<open>Asset files\<close>

text \<open>
  What is at one of the four fixed paths: nothing (no regular file), a file that cannot
  be opened, a file whose bytes do not decode (as UTF-8 text, or as an image), or a file
  with its decoded content: the text, or the pixel size \<open>(width, height)\<close> that
  \<^verbatim>\<open>ImageReader.getSize()\<close> reports.
\<close>

datatype 'a file_state = Missing | Unreadable | Undecodable | Readable 'a


fun path_read_text :: "string file_state \<Rightarrow> py_error + string" where
  "path_read_text Missing = Inl OSError"
| "path_read_text Unreadable = Inl OSError"
| "path_read_text Undecodable = Inl UnicodeDecodeError"
| "path_read_text (Readable s) = Inr s"


text \<open>\<^verbatim>\<open>_safe_read_text\<close> and \<^verbatim>\<open>_image_reader_or_none\<close>: every exception is caught.\<close>

definition safe_read_text :: "string file_state \<Rightarrow> string \<Rightarrow> string" where
  "safe_read_text path dflt =
     (case path_read_text path of Inr s \<Rightarrow> py_strip s | Inl e \<Rightarrow> py_strip dflt)"







subsection \<open>The layout handed to the document builder\<close>

text \<open>
  The function ends with \<^verbatim>\<open>doc.build(story, canvasmaker=...)\<close> and returns the bytes
  ReportLab wrote. The model stops at that call: its result is everything the function
  itself computes and hands to ReportLab, that is the margins and the frame of the
  document template, the story, the decoration of a page, and the arguments of the
  canvas. A paragraph is its text and its style; a section bar is a one-cell table.
\<close>

datatype paragraph_style = style_bar | style_cell | style_cell_bold






subsection \<open>The customer and product tables\<close>

definition customer_info_rows ::
  "(string \<rightharpoonup> string) \<Rightarrow> (string \<times> string \<times> string \<times> string) list" where
  "customer_info_rows info =
     [(''Customer Name'', dict_get info ''customerName'',
       ''Account Number'', dict_get info ''accountNumber''),
      (''Customer PO Number'', dict_get info ''poNumber'',
       ''Supplier Quote Number'', dict_get info ''quoteNumber''),
      (''Order Date'', dict_get info ''orderDate'',
       ''Quantity Shipped'', dict_get info ''quantityShipped''),
      (''Shipped Date'', dict_get info ''shippedDate'',
       ''Shipped To Location'', dict_get info ''shippedLocation'')]"

text \<open>The body of the loop over the customer rows, with its two tests on the labels.\<close>

definition ci_row ::
  "(string \<Rightarrow> to_datetime_result) \<Rightarrow> string \<times> string \<times> string \<times> string
    \<Rightarrow> (string \<times> paragraph_style) list" where
  "ci_row to_datetime row =
     (case row of (l1, v1, l2, v2) \<Rightarrow>
        (let kv1 = (if py_in ''order'' (py_lower l1) \<or> py_in ''shipped'' (py_lower l1)
                    then normalize_date_str to_datetime v1 else v1);
             kv2 = (if py_in ''quote'' (py_lower l2) = False \<and> py_in ''shipped'' (py_lower l2)
                    then normalize_date_str to_datetime v2 else v2)
         in [(l1, style_cell_bold), (kv1, style_cell), (l2, style_cell_bold), (kv2, style_cell)]))"

definition product_info_rows ::
  "(string \<rightharpoonup> string) \<Rightarrow> (string \<times> string \<times> string \<times> string) list" where
  "product_info_rows info =
     [(''Item Name'', dict_get info ''itemName'', ''Item SKU'', dict_get info ''itemSKU''),
      (''Lot Number'', dict_get info ''lotNumber'',
       ''Manufacturing Location'', dict_get info ''manufacturingLocation''),
      (''Manufacturing Date'', dict_get info ''manufacturingDate'',
       ''Test Date'', dict_get info ''testDate''),
      (''Expiration Date'', dict_get info ''expirationDate'',
       ''Certificate Print Date'', dict_get info ''printDate'')]"

definition date_label :: "string \<Rightarrow> bool" where
  "date_label l =
     list_ex (\<lambda>k. py_in k (py_lower l))
       [''manufacturing date'', ''expiration'', ''test date'', ''print date'']"

definition pi_row ::
  "(string \<Rightarrow> to_datetime_result) \<Rightarrow> string \<times> string \<times> string \<times> string
    \<Rightarrow> (string \<times> paragraph_style) list" where
  "pi_row to_datetime row =
     (case row of (l1, v1, l2, v2) \<Rightarrow>
        (let is_date1 = date_label l1;
             is_date2 = date_label l2;
             kv1 = (if is_date1 then normalize_date_str to_datetime v1 else v1);
             kv2 = (if is_date2 then normalize_date_str to_datetime v2 else v2)
         in [(l1, style_cell_bold), (kv1, style_cell), (l2, style_cell_bold), (kv2, style_cell)]))"

subsection \<open>The tested properties\<close>



subsection \<open>Page decoration\<close>



subsection \<open>The function\<close>


section \<open>Properties\<close>

subsection \<open>Column width fitting\<close>





subsection \<open>Pagination\<close>

text \<open>Drawing on the canvas appends to the current page and touches nothing else.\<close>

lemma foldl_apply_op_frame:
  "code (cur (foldl apply_op c ops)) = code (cur c) @ ops
   \<and> pageNumber (cur (foldl apply_op c ops)) = pageNumber (cur c)
   \<and> self_version_text (cur (foldl apply_op c ops)) = self_version_text (cur c)
   \<and> saved_page_states (foldl apply_op c ops) = saved_page_states c
   \<and> doc_pages (foldl apply_op c ops) = doc_pages c"
proof (induction ops arbitrary: c)
  case Nil
  show ?case by simp
next
  case (Cons a ops)
  show ?case
    by (cases a)
      (simp_all add: Cons Canvas_setFont_def Canvas_setFillColor_def Canvas_drawRightString_def)
qed

lemma draw_page_frame:
  assumes "code (cur c) = []"
  shows "saved_page_states (draw_page c ops) = saved_page_states c @ [cur (foldl apply_op c ops)]"
    and "code (cur (draw_page c ops)) = []"
    and "pageNumber (cur (draw_page c ops)) = pageNumber (cur c) + 1"
    and "self_version_text (cur (draw_page c ops)) = self_version_text (cur c)"
    and "doc_pages (draw_page c ops) = doc_pages c"
  using foldl_apply_op_frame [of c ops]
  by (simp_all add: draw_page_def showPage_def Canvas_startPage_def)

lemma collect_pages_saved:
  assumes "code (cur c) = []"
  shows "map code (saved_page_states (collect_pages pages c)) = map code (saved_page_states c) @ pages
    \<and> map pageNumber (saved_page_states (collect_pages pages c))
        = map pageNumber (saved_page_states c) @ [pageNumber (cur c) ..< pageNumber (cur c) + length pages]
    \<and> map self_version_text (saved_page_states (collect_pages pages c))
        = map self_version_text (saved_page_states c) @ replicate (length pages) (self_version_text (cur c))
    \<and> doc_pages (collect_pages pages c) = doc_pages c
    \<and> code (cur (collect_pages pages c)) = []"
  using assms
proof (induction pages arbitrary: c)
  case Nil
  then show ?case by (simp add: collect_pages_def)
next
  case (Cons p pages)
  note fr = draw_page_frame [OF Cons.prems, of p]
  have step: "collect_pages (p # pages) c = collect_pages pages (draw_page c p)"
    by (simp add: collect_pages_def)
  have up: "[pageNumber (cur c) ..< pageNumber (cur c) + length (p # pages)]
      = pageNumber (cur c) # [pageNumber (cur c) + 1 ..< pageNumber (cur c) + 1 + length pages]"
    by (simp add: upt_rec)
  show ?case
    unfolding step up
    using Cons.IH [OF fr(2)] foldl_apply_op_frame [of c p] Cons.prems
    by (simp add: fr)
qed


lemma draw_footer_numbers_frame:
  "code (cur (draw_footer_numbers n c))
     = code (cur c) @ footer_ops (self_version_text (cur c)) (pageNumber (cur c)) n
   \<and> saved_page_states (draw_footer_numbers n c) = saved_page_states c
   \<and> doc_pages (draw_footer_numbers n c) = doc_pages c"
  by (simp add: draw_footer_numbers_def footer_ops_def Let_def Canvas_setFont_def
      Canvas_setFillColor_def Canvas_drawRightString_def Canvas_getPageNumber_def
      VER_FONT_SIZE_def PAGE_FONT_SIZE_def)

lemma save_page_frame:
  "doc_pages (save_page n c st)
     = doc_pages c @ [code st @ footer_ops (self_version_text st) (pageNumber st) n]
   \<and> saved_page_states (save_page n c st) = saved_page_states c
   \<and> code (cur (save_page n c st)) = []"
  using draw_footer_numbers_frame [of n "c\<lparr>cur := st\<rparr>"]
  by (simp add: save_page_def Canvas_showPage_def Canvas_startPage_def)

lemma foldl_save_page:
  "doc_pages (foldl (save_page n) c sts)
     = doc_pages c @ map (\<lambda>st. code st @ footer_ops (self_version_text st) (pageNumber st) n) sts
   \<and> saved_page_states (foldl (save_page n) c sts) = saved_page_states c
   \<and> (code (cur c) = [] \<longrightarrow> code (cur (foldl (save_page n) c sts)) = [])"
proof (induction sts arbitrary: c)
  case Nil
  show ?case by simp
next
  case (Cons st sts)
  show ?case
    using Cons [of "save_page n c st"] save_page_frame [of n c st] by simp
qed

lemma save_frame:
  assumes "code (cur c) = []"
  shows "doc_pages (save c)
      = doc_pages c @ map (\<lambda>st. code st @ footer_ops (self_version_text st) (pageNumber st)
                                   (length (saved_page_states c))) (saved_page_states c)
    \<and> saved_page_states (save c) = saved_page_states c
    \<and> doc_saved (save c)"
  using foldl_save_page [of "length (saved_page_states c)" c "saved_page_states c"] assms
  by (simp add: save_def Canvas_save_def Let_def)

text \<open>
  C1. For a document whose flowing content spans \<open>N\<close> pages (\<open>pages\<close>, drawn page by
  page with \<^verbatim>\<open>showPage()\<close> after each and \<^verbatim>\<open>save()\<close> at the end): the first pass captures
  exactly \<open>N\<close> page states and emits no page; the captured operator lists are exactly
  those the flow drew, so no page-number text exists before \<^verbatim>\<open>save()\<close>; \<^verbatim>\<open>save()\<close> leaves
  the capture list as it is and emits \<open>N\<close> pages, where page \<open>k\<close> (counted from 1) is the
  captured content followed by the version text and by the text "Page k of N", with \<open>N\<close>
  the capture count and the same version text on every page.
\<close>

theorem C1_pagination:
  fixes pages :: "draw_op list list" and version :: string and fh :: real
  defines "c1 \<equiv> collect_pages pages (NumberedCanvas_init version fh)"
  defines "N \<equiv> length pages"
  shows "length (saved_page_states c1) = N
    \<and> doc_pages c1 = []
    \<and> map code (saved_page_states c1) = pages
    \<and> saved_page_states (save c1) = saved_page_states c1
    \<and> length (doc_pages (save c1)) = N
    \<and> doc_pages (save c1) = map (\<lambda>k. pages ! k @ footer_ops version (k + 1) N) [0..<N]
    \<and> doc_saved (save c1)"
proof -
  let ?c0 = "NumberedCanvas_init version fh"
  let ?sts = "saved_page_states c1"
  have init: "code (cur ?c0) = []" "saved_page_states ?c0 = []" "doc_pages ?c0 = []"
    "pageNumber (cur ?c0) = 1" "self_version_text (cur ?c0) = version"
    by (simp_all add: NumberedCanvas_init_def)
  note col = collect_pages_saved [OF init(1), of pages, folded c1_def]
  have codes: "map code ?sts = pages"
    using col by (simp add: init)
  have nums: "map pageNumber ?sts = [1 ..< 1 + N]"
    using col by (simp add: init N_def)
  have vers: "map self_version_text ?sts = replicate N version"
    using col by (simp add: init N_def)
  have none_emitted: "doc_pages c1 = []"
    using col by (simp add: init)
  have empty: "code (cur c1) = []"
    using col by simp
  have len: "length ?sts = N"
    using arg_cong [OF codes, of length] by (simp add: N_def)
  note sv = save_frame [OF empty]
  have pages_out: "doc_pages (save c1)
      = map (\<lambda>st. code st @ footer_ops (self_version_text st) (pageNumber st) N) ?sts"
    using sv by (simp add: none_emitted len)
  have kth: "code (?sts ! k) = pages ! k \<and> pageNumber (?sts ! k) = k + 1
      \<and> self_version_text (?sts ! k) = version" if "k < N" for k
  proof -
    have "map code ?sts ! k = pages ! k" "map self_version_text ?sts ! k = version"
      using that by (simp_all add: codes vers)
    moreover have "map pageNumber ?sts ! k = k + 1"
      using that nth_upt [of 1 k "1 + N"] by (simp add: nums del: upt_Suc)
    ultimately show ?thesis using that len by simp
  qed
  have final: "doc_pages (save c1) = map (\<lambda>k. pages ! k @ footer_ops version (k + 1) N) [0..<N]"
    unfolding pages_out
    by (rule nth_equalityI) (simp_all add: len kth)
  show ?thesis
    using len none_emitted codes sv final by simp
qed

text \<open>A two-page document with version text "2.3".\<close>

theorem C1_pagination_witness:
  "doc_pages (save (collect_pages [[Content ''a''], [Content ''b'', Content ''c'']]
       (NumberedCanvas_init ''2.3'' 0)))
   = [[Content ''a'', SetFont ''Helvetica'' 6, SetFillColor grey,
       DrawRightString 567 32.4 ''2.3'', SetFont ''Helvetica'' 6,
       DrawRightString 567 23.04 ''Page 1 of 2''],
      [Content ''b'', Content ''c'', SetFont ''Helvetica'' 6, SetFillColor grey,
       DrawRightString 567 32.4 ''2.3'', SetFont ''Helvetica'' 6,
       DrawRightString 567 23.04 ''Page 2 of 2'']]"
  using C1_pagination [of "[[Content ''a''], [Content ''b'', Content ''c'']]" "''2.3''" 0]
  by (simp add: footer_ops_def str_nat.simps digit_char_def FOOTER_RIGHT_X_def VER_Y_ABS_def
      PAGE_Y_ABS_def PAGE_W_def inch_def upt_rec)

subsection \<open>Import of an uploaded file\<close>

lemma process_row_header: "header_row row \<Longrightarrow> process_row data row = data"
  by (cases row) (simp_all add: header_row_def process_row_def)

lemma process_row_missing: "missing_value_row row \<Longrightarrow> process_row data row = data"
  by (auto simp: missing_value_row_def process_row_def Let_def split: list.splits)

lemma foldl_process_row_filter:
  assumes "\<And>data row. P row \<Longrightarrow> process_row data row = data"
  shows "foldl process_row data (filter (\<lambda>r. \<not> P r) df) = foldl process_row data df"
  by (induction df arbitrary: data) (simp_all add: assms)

lemma load_frame_snoc: "load_frame (df @ [row]) = process_row (load_frame df) row"
  by (simp add: load_frame_def)

lemmas row_eval = load_frame_def process_row_def Let_def py_strip_def py_isspace_def
  py_lower_def py_lower_char_def strftime_ymd_def zero_pad_def str_nat.simps digit_char_def











lemma length_str_nat_step:
  "length (str_nat n) = (if n < 10 then 1 else length (str_nat (n div 10)) + 1)"
  by (subst str_nat.simps) simp


lemma length_str_nat_gt: "10 ^ k \<le> n \<Longrightarrow> k < length (str_nat n)"
proof (induction k arbitrary: n)
  case 0
  then show ?case by (simp add: length_str_nat_step)
next
  case (Suc j)
  from Suc.prems have "10 * 10 ^ j \<le> n" by simp
  moreover have "(1::nat) \<le> 10 ^ j" by simp
  ultimately have "10 \<le> n" by linarith
  moreover from Suc.prems have "10 ^ j \<le> n div 10"
    by (simp add: less_eq_div_iff_mult_less_eq mult.commute)
  ultimately show ?case using Suc.IH [of "n div 10"] by (simp add: length_str_nat_step)
qed



lemma process_row_add: "process_row data row = data ++ process_row Map.empty row"
  by (simp add: process_row_def Let_def)

lemma process_row_empty_entry:
  assumes "process_row Map.empty row k = Some v"
  shows "\<not> header_row row \<and> \<not> missing_value_row row"
proof -
  have "process_row Map.empty row \<noteq> Map.empty" using assms by auto
  then show ?thesis
    using process_row_header [of row Map.empty] process_row_missing [of row Map.empty] by auto
qed

lemma load_frame_entry:
  "load_frame df k = Some v \<Longrightarrow> \<exists>row \<in> set df. process_row Map.empty row k = Some v"
proof (induction df arbitrary: v rule: rev_induct)
  case Nil
  then show ?case by (simp add: load_frame_def)
next
  case (snoc row df)
  have "load_frame (df @ [row]) = load_frame df ++ process_row Map.empty row"
    using process_row_add [of "load_frame df" row] by (simp add: load_frame_snoc)
  with snoc.prems have "process_row Map.empty row k = Some v \<or> load_frame df k = Some v"
    by (auto simp: map_add_Some_iff)
  then show ?case using snoc.IH by auto
qed

text \<open>
  C9 (as stated, refuted). The claim has blank values dropped rather than stored as empty
  strings. Only a value for which \<^verbatim>\<open>pd.isna\<close> holds is dropped; a value cell holding
  white space is a string, passes that test, and is stored as \<^verbatim>\<open>str(value).strip()\<close>,
  the empty string. The file below has a "field" header row and one row whose value is a
  single space.
\<close>

theorem C9_parse_uploaded_file_counterexample:
  "fst (parse_uploaded_file
          (\<lambda>f. Inr [[Str ''field'', Str ''value''], [Str ''lotNumber'', Str '' '']])
          (\<lambda>f. Inl ''not a workbook'')
          (Some \<lparr>file_name = ''coa.csv'',
                 file_bytes = ''field,value'' @ [CHR 0x0A] @ ''lotNumber, '' @ [CHR 0x0A]\<rparr>))
     ''lotNumber'' = Some ''''"
  by (simp add: parse_uploaded_file_def py_endswith_def row_eval)

text \<open>
  C9 (amended). For a file whose name ends in \<^verbatim>\<open>.csv\<close> (or else in \<^verbatim>\<open>.xls\<close> or
  \<^verbatim>\<open>.xlsx\<close>) and that the reader turns into the frame \<open>df\<close>, the function returns the
  dictionary built from the rows of \<open>df\<close> and reports no error. A row whose first cell is
  a string equal to "field" after stripping and lowercasing contributes nothing, and a
  row whose value is missing (\<^verbatim>\<open>pd.isna\<close>) contributes nothing: the result is the same
  with such rows removed, and every entry of the result comes from a row that is neither.
  A string value is stored stripped of surrounding white space, whatever is left of it
  (so a value of white space only is stored as the empty string, not dropped).
\<close>

theorem C9_parse_uploaded_file_amended:
  assumes "if py_endswith (py_lower (file_name f)) ''.csv'' then read_csv f = Inr df
           else (py_endswith (py_lower (file_name f)) ''.xls''
                 \<or> py_endswith (py_lower (file_name f)) ''.xlsx'') \<and> read_excel f = Inr df"
  shows "parse_uploaded_file read_csv read_excel (Some f) = (load_frame df, [])
    \<and> load_frame df = load_frame (filter (\<lambda>row. \<not> header_row row) df)
    \<and> load_frame df = load_frame (filter (\<lambda>row. \<not> missing_value_row row) df)
    \<and> (\<forall>k v. load_frame df k = Some v \<longrightarrow>
          (\<exists>row \<in> set df. \<not> header_row row \<and> \<not> missing_value_row row
                           \<and> process_row Map.empty row k = Some v))
    \<and> (\<forall>data field s rest. \<not> is_field_header field \<and> \<not> isna field \<longrightarrow>
          process_row data (field # Str s # rest)
            = data(py_strip (str_cell field) \<mapsto> py_strip s))"
proof -
  have "parse_uploaded_file read_csv read_excel (Some f) = (load_frame df, [])"
    using assms by (simp add: parse_uploaded_file_def Let_def split: if_splits)
  moreover have "load_frame df = load_frame (filter (\<lambda>row. \<not> header_row row) df)"
    unfolding load_frame_def
    by (rule foldl_process_row_filter [symmetric]) (rule process_row_header)
  moreover have "load_frame df = load_frame (filter (\<lambda>row. \<not> missing_value_row row) df)"
    unfolding load_frame_def
    by (rule foldl_process_row_filter [symmetric]) (rule process_row_missing)
  moreover have "\<exists>row \<in> set df. \<not> header_row row \<and> \<not> missing_value_row row
      \<and> process_row Map.empty row k = Some v" if "load_frame df k = Some v" for k v
    using load_frame_entry [OF that] process_row_empty_entry by blast
  moreover have "process_row data (field # Str s # rest)
      = data(py_strip (str_cell field) \<mapsto> py_strip s)"
    if "\<not> is_field_header field \<and> \<not> isna field" for data field s rest
    using that by (simp add: process_row_def)
  ultimately show ?thesis by blast
qed

text \<open>
  The example of the specification: a "field" header row, one row with a value and one
  row whose value is missing yield the one entry of the row with a value.
\<close>

theorem C9_parse_uploaded_file_amended_witness:
  "parse_uploaded_file
     (\<lambda>f. Inr [[Str ''Field'', Str ''Value''], [Str ''lotNumber'', Str ''L-1''],
                [Str ''poNumber'', NA]])
     (\<lambda>f. Inl ''not a workbook'')
     (Some \<lparr>file_name = ''COA.CSV'',
            file_bytes = ''Field,Value'' @ [CHR 0x0A] @ ''lotNumber,L-1'' @ [CHR 0x0A]
                           @ ''poNumber,'' @ [CHR 0x0A]\<rparr>)
   = ([''lotNumber'' \<mapsto> ''L-1''], [])"
  using C9_parse_uploaded_file_amended
    [of "\<lparr>file_name = ''COA.CSV'',
            file_bytes = ''Field,Value'' @ [CHR 0x0A] @ ''lotNumber,L-1'' @ [CHR 0x0A]
                           @ ''poNumber,'' @ [CHR 0x0A]\<rparr>"
        "\<lambda>f. Inr [[Str ''Field'', Str ''Value''], [Str ''lotNumber'', Str ''L-1''],
                   [Str ''poNumber'', NA]]"
        "[[Str ''Field'', Str ''Value''], [Str ''lotNumber'', Str ''L-1''], [Str ''poNumber'', NA]]"
        "\<lambda>f. Inl ''not a workbook''"]
  by (simp add: py_endswith_def row_eval)



subsection \<open>Numeric formatting\<close>


























subsection \<open>Date normalisation\<close>




subsection \<open>Asset loading\<close>




lemma safe_read_text_cases:
  "safe_read_text path dflt = (case path of Readable s \<Rightarrow> py_strip s | _ \<Rightarrow> py_strip dflt)"
  by (cases path) (simp_all add: safe_read_text_def)






subsection \<open>Reserved bands\<close>




subsection \<open>Which values are normalised as dates\<close>

text \<open>
  C6 (the code departs from the claim). The customer table normalises the value beside
  a label that contains "order" or "shipped" (left column), or that contains "shipped"
  and not "quote" (right column). So the values of \<open>orderDate\<close> and \<open>shippedDate\<close> are
  normalised, those of \<open>accountNumber\<close> and \<open>quoteNumber\<close> are not, and the values of
  \<open>quantityShipped\<close> and \<open>shippedLocation\<close>, which are not among \<^verbatim>\<open>DATE_KEYS\<close>, are
  normalised too: with a parser that reads \<^verbatim>\<open>"2000"\<close> as the year 2000, a quantity of
  2000 is rendered as \<^verbatim>\<open>"2000-01-01"\<close>. The product table normalises exactly its four date
  values.
\<close>

theorem C6_customer_table_normalises_quantity_and_location:
  "map (ci_row td) (customer_info_rows info)
     = [[(''Customer Name'', style_cell_bold), (dict_get info ''customerName'', style_cell),
         (''Account Number'', style_cell_bold), (dict_get info ''accountNumber'', style_cell)],
        [(''Customer PO Number'', style_cell_bold), (dict_get info ''poNumber'', style_cell),
         (''Supplier Quote Number'', style_cell_bold),
         (dict_get info ''quoteNumber'', style_cell)],
        [(''Order Date'', style_cell_bold),
         (normalize_date_str td (dict_get info ''orderDate''), style_cell),
         (''Quantity Shipped'', style_cell_bold),
         (normalize_date_str td (dict_get info ''quantityShipped''), style_cell)],
        [(''Shipped Date'', style_cell_bold),
         (normalize_date_str td (dict_get info ''shippedDate''), style_cell),
         (''Shipped To Location'', style_cell_bold),
         (normalize_date_str td (dict_get info ''shippedLocation''), style_cell)]]
   \<and> map (pi_row td) (product_info_rows info)
     = [[(''Item Name'', style_cell_bold), (dict_get info ''itemName'', style_cell),
         (''Item SKU'', style_cell_bold), (dict_get info ''itemSKU'', style_cell)],
        [(''Lot Number'', style_cell_bold), (dict_get info ''lotNumber'', style_cell),
         (''Manufacturing Location'', style_cell_bold),
         (dict_get info ''manufacturingLocation'', style_cell)],
        [(''Manufacturing Date'', style_cell_bold),
         (normalize_date_str td (dict_get info ''manufacturingDate''), style_cell),
         (''Test Date'', style_cell_bold),
         (normalize_date_str td (dict_get info ''testDate''), style_cell)],
        [(''Expiration Date'', style_cell_bold),
         (normalize_date_str td (dict_get info ''expirationDate''), style_cell),
         (''Certificate Print Date'', style_cell_bold),
         (normalize_date_str td (dict_get info ''printDate''), style_cell)]]
   \<and> ci_row (\<lambda>s. if s = ''2000''
                  then Parsed \<lparr>ts_year = 2000, ts_month = 1, ts_day = 1, ts_hour = 0,
                                ts_minute = 0, ts_second = 0\<rparr>
                  else NaT)
        (''Order Date'', dict_get [''quantityShipped'' \<mapsto> ''2000''] ''orderDate'',
         ''Quantity Shipped'', dict_get [''quantityShipped'' \<mapsto> ''2000''] ''quantityShipped'')
     = [(''Order Date'', style_cell_bold), ('''', style_cell),
        (''Quantity Shipped'', style_cell_bold), (''2000-01-01'', style_cell)]"
proof -
  have ci: "map (ci_row td) (customer_info_rows info) = [
      [(''Customer Name'', style_cell_bold), (dict_get info ''customerName'', style_cell),
       (''Account Number'', style_cell_bold), (dict_get info ''accountNumber'', style_cell)],
      [(''Customer PO Number'', style_cell_bold), (dict_get info ''poNumber'', style_cell),
       (''Supplier Quote Number'', style_cell_bold),
       (dict_get info ''quoteNumber'', style_cell)],
      [(''Order Date'', style_cell_bold),
       (normalize_date_str td (dict_get info ''orderDate''), style_cell),
       (''Quantity Shipped'', style_cell_bold),
       (normalize_date_str td (dict_get info ''quantityShipped''), style_cell)],
      [(''Shipped Date'', style_cell_bold),
       (normalize_date_str td (dict_get info ''shippedDate''), style_cell),
       (''Shipped To Location'', style_cell_bold),
       (normalize_date_str td (dict_get info ''shippedLocation''), style_cell)]]"
    by (simp add: customer_info_rows_def ci_row_def py_lower_def py_lower_char_def)
  have pi: "map (pi_row td) (product_info_rows info) = [
      [(''Item Name'', style_cell_bold), (dict_get info ''itemName'', style_cell),
       (''Item SKU'', style_cell_bold), (dict_get info ''itemSKU'', style_cell)],
      [(''Lot Number'', style_cell_bold), (dict_get info ''lotNumber'', style_cell),
       (''Manufacturing Location'', style_cell_bold),
       (dict_get info ''manufacturingLocation'', style_cell)],
      [(''Manufacturing Date'', style_cell_bold),
       (normalize_date_str td (dict_get info ''manufacturingDate''), style_cell),
       (''Test Date'', style_cell_bold),
       (normalize_date_str td (dict_get info ''testDate''), style_cell)],
      [(''Expiration Date'', style_cell_bold),
       (normalize_date_str td (dict_get info ''expirationDate''), style_cell),
       (''Certificate Print Date'', style_cell_bold),
       (normalize_date_str td (dict_get info ''printDate''), style_cell)]]"
    by (simp add: product_info_rows_def pi_row_def date_label_def py_lower_def py_lower_char_def)
  have ex: "ci_row (\<lambda>s. if s = ''2000''
                  then Parsed \<lparr>ts_year = 2000, ts_month = 1, ts_day = 1, ts_hour = 0,
                                ts_minute = 0, ts_second = 0\<rparr>
                  else NaT)
        (''Order Date'', dict_get [''quantityShipped'' \<mapsto> ''2000''] ''orderDate'',
         ''Quantity Shipped'', dict_get [''quantityShipped'' \<mapsto> ''2000''] ''quantityShipped'')
     = [(''Order Date'', style_cell_bold), ('''', style_cell),
        (''Quantity Shipped'', style_cell_bold), (''2000-01-01'', style_cell)]"
    by (simp add: ci_row_def py_lower_def py_lower_char_def dict_get_def normalize_date_str_def
        strftime_ymd_def zero_pad_def str_nat.simps digit_char_def)
  show ?thesis
    by (simp only: ci pi ex simp_thms)
qed

end
